theory Spec2Isabelle
  imports Main "HOL-Library.Sublist"
begin

section \<open>The note store of dendron: data model\<close>

text \<open>
  The class \<open>NoteStore\<close> keeps every note in two halves: its metadata in a
  keyed data store and its text in a file store. The two stores, the path
  resolver, the serializer and the hash function are imported by the class;
  they are parameters of the model. JavaScript strings are modelled as
  \<^typ>\<open>string\<close>; the logger writes no store and is left out.
\<close>

subsection \<open>Errors and responses\<close>

text \<open>
  The two members of \<open>ERROR_STATUS\<close> and the member of \<open>ERROR_SEVERITY\<close> that the
  class uses; every other member is kept behind a catch-all constructor.
\<close>

datatype ERROR_STATUS = BAD_PARSE_FOR_NOTE | WRITE_FAILED | OTHER_STATUS string

datatype ERROR_SEVERITY = MINOR | OTHER_SEVERITY string

record IDendronError =
  status :: "ERROR_STATUS option"
  message :: string
  severity :: "ERROR_SEVERITY option"

text \<open>
  Modelled from the spec: \<open>DendronError.createFromStatus\<close> is imported; it builds
  the error that carries the given status, message and severity.
\<close>

definition createFromStatus :: "ERROR_STATUS \<Rightarrow> string \<Rightarrow> ERROR_SEVERITY \<Rightarrow> IDendronError" where
  "createFromStatus st msg sev = \<lparr>status = Some st, message = msg, severity = Some sev\<rparr>"

text \<open>
  Modelled from the spec: \<open>DendronCompositeError\<close> is imported; it is a
  container of the underlying errors it was built from.
\<close>

datatype DendronCompositeError = DendronCompositeError (errors: "IDendronError list")

text \<open>
  \<open>RespV3<T>\<close> is either \<open>{error}\<close> or \<open>{data}\<close>: the sum \<open>IDendronError + T\<close>,
  with \<open>Inl\<close> the error. \<open>BulkResp<T>\<close> has both fields; \<open>error = None\<close> is the
  explicit \<open>null\<close>, \<open>data = None\<close> an absent \<open>data\<close>.
\<close>

type_synonym 'a RespV3 = "IDendronError + 'a"

record 'a BulkResp =
  error :: "DendronCompositeError option"
  data :: "'a option"

subsection \<open>Notes\<close>

text \<open>
  \<open>NotePropsMeta\<close> is \<open>NoteProps\<close> without \<open>body\<close>. The class reads \<open>id\<close> and
  overwrites \<open>contentHash\<close>; all remaining properties are carried unchanged in
  \<open>rest\<close>.
\<close>

record 'r NotePropsMeta =
  note_id :: string
  contentHash :: "string option"
  rest :: 'r

record 'r NoteProps = "'r NotePropsMeta" +
  body :: string

record DNoteLoc =
  fname :: string

text \<open>\<open>_.omit(note, "body")\<close>.\<close>

definition omit_body :: "'r NoteProps \<Rightarrow> 'r NotePropsMeta" where
  "omit_body note = NotePropsMeta.truncate note"

subsection \<open>The imported stores and functions\<close>

text \<open>
  A store is a state of some type and the operations of its interface. Reads
  return a response; writes and deletes return a response and the next state.
\<close>

record 'fs IFileStore =
  fs_read :: "'fs \<Rightarrow> string \<Rightarrow> string RespV3"
  fs_write :: "'fs \<Rightarrow> string \<Rightarrow> string \<Rightarrow> string RespV3 \<times> 'fs"
  fs_delete :: "'fs \<Rightarrow> string \<Rightarrow> string RespV3 \<times> 'fs"

record ('ms, 'r, 'q) IDataStore =
  ms_get :: "'ms \<Rightarrow> string \<Rightarrow> 'r NotePropsMeta RespV3"
  ms_find :: "'ms \<Rightarrow> 'q \<Rightarrow> 'r NotePropsMeta list RespV3"
  ms_write :: "'ms \<Rightarrow> string \<Rightarrow> 'r NotePropsMeta \<Rightarrow> string RespV3 \<times> 'ms"
  ms_delete :: "'ms \<Rightarrow> string \<Rightarrow> string RespV3 \<times> 'ms"

text \<open>
  \<open>NoteUtils.getFullPath\<close>, \<open>NoteUtils.serialize\<close> (with its \<open>excludeStub\<close>
  option) and \<open>genHash\<close>. The path resolver is declared on the metadata: \<open>get\<close>
  and \<open>delete\<close> apply it to a row of the metadata store.
\<close>

record 'r common_all =
  getFullPath :: "'r NotePropsMeta \<Rightarrow> string \<Rightarrow> string"
  serialize :: "'r NoteProps \<Rightarrow> bool \<Rightarrow> string"
  genHash :: "string \<Rightarrow> string"

record ('fs, 'ms, 'r, 'q) NoteStore =
  fileStore :: "'fs IFileStore"
  metadataStore :: "('ms, 'r, 'q) IDataStore"
  wsRoot :: string

section \<open>The header pattern\<close>

text \<open>
  \<open>/^---[\s\S]+?---/\<close>: the delimiter at the start of the text, then one
  character or more, as few as possible, then the delimiter. \<open>upto_delim\<close> is
  the part \<open>[\s\S]*?---\<close>: it scans for the first delimiter and returns the text
  up to its end. \<open>match_frontmatter\<close> returns \<open>capture[0]\<close>, or \<open>None\<close> for
  \<open>null\<close>.
\<close>

fun upto_delim :: "string \<Rightarrow> string option" where
  "upto_delim [] = None"
| "upto_delim (c # cs) =
     (if prefix ''---'' (c # cs) then Some ''---''
      else map_option ((#) c) (upto_delim cs))"

definition match_frontmatter :: "string \<Rightarrow> string option" where
  "match_frontmatter s =
     (if prefix ''---'' s then
        (case drop 3 s of
           [] \<Rightarrow> None
         | c # cs \<Rightarrow> map_option (\<lambda>m. ''---'' @ c # m) (upto_delim cs))
      else None)"

section \<open>The methods of \<open>NoteStore\<close>\<close>

definition getMetadata ::
  "('fs, 'ms, 'r, 'q) NoteStore \<Rightarrow> 'fs \<times> 'ms \<Rightarrow> string \<Rightarrow> 'r NotePropsMeta RespV3" where
  "getMetadata S st key =
     (case ms_get (metadataStore S) (snd st) key of
        Inl e \<Rightarrow> Inl e
      | Inr d \<Rightarrow> Inr d)"

definition getNonMetadata ::
  "('fs, 'ms, 'r, 'q) NoteStore \<Rightarrow> 'fs \<times> 'ms \<Rightarrow> string \<Rightarrow> string RespV3" where
  "getNonMetadata S st fpath = fs_read (fileStore S) (fst st) fpath"

definition get ::
  "'r common_all \<Rightarrow> ('fs, 'ms, 'r, 'q) NoteStore \<Rightarrow> 'fs \<times> 'ms \<Rightarrow> string \<Rightarrow> 'r NoteProps RespV3" where
  "get C S st key =
     (case getMetadata S st key of
        Inl e \<Rightarrow> Inl e
      | Inr metadata \<Rightarrow>
          (let fpath = getFullPath C metadata (wsRoot S) in
           case getNonMetadata S st fpath of
             Inl e \<Rightarrow> Inl e
           | Inr nonMetadata \<Rightarrow>
               (case match_frontmatter nonMetadata of
                  Some capture \<Rightarrow>
                    (let offset = length capture;
                         body = drop (offset + 1) nonMetadata
                     in Inr (NotePropsMeta.extend
                               (metadata\<lparr>contentHash := Some (genHash C nonMetadata)\<rparr>)
                               (NoteProps.fields body)))
                | None \<Rightarrow>
                    Inl (createFromStatus BAD_PARSE_FOR_NOTE
                          (''Frontmatter missing for file '' @ fpath @
                           '' associated with note '' @ key @ ''.'')
                          MINOR))))"

definition findMetaData ::
  "('fs, 'ms, 'r, 'q) NoteStore \<Rightarrow> 'fs \<times> 'ms \<Rightarrow> 'q \<Rightarrow> 'r NotePropsMeta list RespV3" where
  "findMetaData S st opts =
     (case ms_find (metadataStore S) (snd st) opts of
        Inl e \<Rightarrow> Inl e
      | Inr d \<Rightarrow> Inr d)"

text \<open>
  The body of the \<open>forEach\<close> in \<open>find\<close>: an error response is pushed on \<open>errors\<close>,
  the data of any other response on \<open>data\<close>. An element of \<open>data\<close> is an option,
  \<open>None\<close> for \<open>undefined\<close>, which \<open>isNotUndefined\<close> filters out afterwards.
\<close>

definition collect ::
  "IDendronError list \<times> 'a option list \<Rightarrow> 'a RespV3 \<Rightarrow> IDendronError list \<times> 'a option list" where
  "collect acc resp =
     (case resp of
        Inl e \<Rightarrow> (fst acc @ [e], snd acc)
      | Inr d \<Rightarrow> (fst acc, snd acc @ [Some d]))"

definition isNotUndefined :: "'a option \<Rightarrow> bool" where
  "isNotUndefined x = (x \<noteq> None)"

text \<open>
  \<open>Promise.all\<close> keeps the order of the rows. Every \<open>get\<close> only reads, so the
  calls in flight see the same two stores.
\<close>

definition find_notes ::
  "'r common_all \<Rightarrow> ('fs, 'ms, 'r, 'q) NoteStore \<Rightarrow> 'fs \<times> 'ms \<Rightarrow> 'q \<Rightarrow> 'r NoteProps list BulkResp" where
  "find_notes C S st opts =
     (case findMetaData S st opts of
        Inl e \<Rightarrow> \<lparr>error = Some (DendronCompositeError [e]), data = None\<rparr>
      | Inr noteMetadata \<Rightarrow>
          (let responses = map (\<lambda>noteMetadata. get C S st (note_id noteMetadata)) noteMetadata;
               acc = foldl collect ([], []) responses
           in \<lparr>error = (if length (fst acc) > 0 then Some (DendronCompositeError (fst acc)) else None),
               data = Some (map the (filter isNotUndefined (snd acc)))\<rparr>))"

text \<open>
  \<open>find\<close> and \<open>write\<close> are named \<open>find_notes\<close> and \<open>write_note\<close> here.
  \<open>write\<close> hands the whole note to the path resolver, which is declared on
  the metadata and so sees the note without its body.
  In the message of \<open>writeMetadata\<close> the note is an object inside a template
  literal, which prints as \<open>[object Object]\<close>.
\<close>

definition writeMetadata ::
  "('fs, 'ms, 'r, 'q) NoteStore \<Rightarrow> 'fs \<times> 'ms \<Rightarrow> string \<Rightarrow> 'r NoteProps \<Rightarrow> string RespV3 \<times> ('fs \<times> 'ms)" where
  "writeMetadata S st key note =
     (if key \<noteq> note_id note then
        (Inl (createFromStatus WRITE_FAILED
               (''Ids don't match between key '' @ key @ '' and note '' @ ''[object Object]'' @ ''.'')
               MINOR), st)
      else
        (let metadata = omit_body note;
             (metaResp, ms') = ms_write (metadataStore S) (snd st) key metadata
         in case metaResp of
              Inl e \<Rightarrow> (Inl e, (fst st, ms'))
            | Inr _ \<Rightarrow> (Inr key, (fst st, ms'))))"

definition write_note ::
  "'r common_all \<Rightarrow> ('fs, 'ms, 'r, 'q) NoteStore \<Rightarrow> 'fs \<times> 'ms \<Rightarrow> string \<Rightarrow> 'r NoteProps \<Rightarrow> string RespV3 \<times> ('fs \<times> 'ms)" where
  "write_note C S st key note =
     (let (metaResp, st1) = writeMetadata S st key note
      in case metaResp of
           Inl e \<Rightarrow> (Inl e, st1)
         | Inr _ \<Rightarrow>
             (let fpath = getFullPath C (omit_body note) (wsRoot S);
                  content = serialize C note True;
                  (writeResp, fs') = fs_write (fileStore S) (fst st1) fpath content
              in case writeResp of
                   Inl e \<Rightarrow> (Inl e, (fs', snd st1))
                 | Inr _ \<Rightarrow> (Inr key, (fs', snd st1))))"

definition delete ::
  "'r common_all \<Rightarrow> ('fs, 'ms, 'r, 'q) NoteStore \<Rightarrow> 'fs \<times> 'ms \<Rightarrow> string \<Rightarrow> string RespV3 \<times> ('fs \<times> 'ms)" where
  "delete C S st key =
     (case getMetadata S st key of
        Inl e \<Rightarrow> (Inl e, st)
      | Inr metadata \<Rightarrow>
          (let fpath = getFullPath C metadata (wsRoot S);
               (deleteResp, fs') = fs_delete (fileStore S) (fst st) fpath
           in case deleteResp of
                Inl e \<Rightarrow> (Inl e, (fs', snd st))
              | Inr _ \<Rightarrow>
                  (let (metaResp, ms') = ms_delete (metadataStore S) (snd st) key
                   in case metaResp of
                        Inl e \<Rightarrow> (Inl e, (fs', ms'))
                      | Inr _ \<Rightarrow> (Inr key, (fs', ms')))))"

definition rename ::
  "('fs, 'ms, 'r, 'q) NoteStore \<Rightarrow> 'fs \<times> 'ms \<Rightarrow> DNoteLoc \<Rightarrow> DNoteLoc \<Rightarrow> string RespV3 \<times> ('fs \<times> 'ms)" where
  "rename S st oldLoc newLoc =
     (let test = fname oldLoc @ fname newLoc
      in (Inr test, st))"

section \<open>The content format\<close>

text \<open>
  The condition of the pattern in closed form: the text starts with the
  delimiter, and a second delimiter follows after at least one character,
  wherever the lines break. This is what the code looks for; it is not the
  header span of the specification, which is defined next.
\<close>

definition has_delimiter_pair :: "string \<Rightarrow> bool" where
  "has_delimiter_pair s \<longleftrightarrow> prefix ''---'' s \<and> sublist ''---'' (drop 4 s)"

text \<open>
  In the words of the specification, the header span: the content starts with the delimiter
  on a line of its own, the lines \<open>hdr\<close> of the header follow, then the closing
  delimiter, again on a line of its own, which is the first such line; \<open>after\<close>
  is the text behind the closing delimiter, so that the body of the
  specification is \<open>drop 1 after\<close>.
\<close>

definition header_span :: "string \<Rightarrow> string \<Rightarrow> string \<Rightarrow> bool" where
  "header_span raw hdr after \<longleftrightarrow>
     raw = ''---\<newline>'' @ hdr @ ''---'' @ after \<and>
     (hdr = [] \<or> last hdr = CHR ''\<newline>'') \<and>
     (after = [] \<or> prefix ''\<newline>'' after) \<and>
     \<not> sublist ''\<newline>---\<newline>'' (CHR ''\<newline>'' # hdr)"

section \<open>Stores in memory\<close>

text \<open>
  Modelled from the spec: the content store and the metadata store are
  imported (\<open>read(key) -> text | error\<close>, \<open>write(key, text) -> ack | error\<close>,
  \<open>delete(key) -> ack | error\<close>, \<open>get\<close>, \<open>find\<close>). In memory a store is a list of
  entries, at most one for a key, and a flag for a backend that is down: then
  every operation reports an error and changes nothing. Reading or deleting an
  absent key is an error as well. A query is a predicate on the rows.
\<close>

record 'v mem =
  entries :: "(string \<times> 'v) list"
  offline :: bool

definition not_found :: "string \<Rightarrow> IDendronError" where
  "not_found k = \<lparr>status = Some (OTHER_STATUS ''does_not_exist''), message = k, severity = None\<rparr>"

definition backend_down :: IDendronError where
  "backend_down = \<lparr>status = Some (OTHER_STATUS ''backend''), message = ''offline'', severity = None\<rparr>"

definition mem_read :: "'v mem \<Rightarrow> string \<Rightarrow> 'v RespV3" where
  "mem_read s k =
     (if offline s then Inl backend_down
      else case map_of (entries s) k of None \<Rightarrow> Inl (not_found k) | Some v \<Rightarrow> Inr v)"

definition mem_write :: "'v mem \<Rightarrow> string \<Rightarrow> 'v \<Rightarrow> string RespV3 \<times> 'v mem" where
  "mem_write s k v =
     (if offline s then (Inl backend_down, s)
      else (Inr k, s\<lparr>entries := (k, v) # filter (\<lambda>e. fst e \<noteq> k) (entries s)\<rparr>))"

definition mem_delete :: "'v mem \<Rightarrow> string \<Rightarrow> string RespV3 \<times> 'v mem" where
  "mem_delete s k =
     (if offline s then (Inl backend_down, s)
      else case map_of (entries s) k of
             None \<Rightarrow> (Inl (not_found k), s)
           | Some _ \<Rightarrow> (Inr k, s\<lparr>entries := filter (\<lambda>e. fst e \<noteq> k) (entries s)\<rparr>))"

definition mem_find :: "'v mem \<Rightarrow> ('v \<Rightarrow> bool) \<Rightarrow> 'v list RespV3" where
  "mem_find s q =
     (if offline s then Inl backend_down
      else Inr (filter q (map snd (entries s))))"

definition mem_fileStore :: "string mem IFileStore" where
  "mem_fileStore = \<lparr>fs_read = mem_read, fs_write = mem_write, fs_delete = mem_delete\<rparr>"

definition mem_dataStore :: "('r NotePropsMeta mem, 'r, 'r NotePropsMeta \<Rightarrow> bool) IDataStore" where
  "mem_dataStore = \<lparr>ms_get = mem_read, ms_find = mem_find, ms_write = mem_write, ms_delete = mem_delete\<rparr>"

text \<open>What a caller expects of a store: an entry deleted with success is gone,
  an entry written with success is read back.\<close>

definition fs_delete_removes :: "'fs IFileStore \<Rightarrow> bool" where
  "fs_delete_removes F \<longleftrightarrow> (\<forall>s p a s'. fs_delete F s p = (Inr a, s') \<longrightarrow> isl (fs_read F s' p))"

definition ms_delete_removes :: "('ms, 'r, 'q) IDataStore \<Rightarrow> bool" where
  "ms_delete_removes M \<longleftrightarrow> (\<forall>s k a s'. ms_delete M s k = (Inr a, s') \<longrightarrow> isl (ms_get M s' k))"

definition fs_write_stores :: "'fs IFileStore \<Rightarrow> bool" where
  "fs_write_stores F \<longleftrightarrow> (\<forall>s p t a s'. fs_write F s p t = (Inr a, s') \<longrightarrow> fs_read F s' p = Inr t)"

definition ms_write_stores :: "('ms, 'r, 'q) IDataStore \<Rightarrow> bool" where
  "ms_write_stores M \<longleftrightarrow> (\<forall>s k v a s'. ms_write M s k v = (Inr a, s') \<longrightarrow> ms_get M s' k = Inr v)"

section \<open>A workspace in memory\<close>

text \<open>
  Modelled from the spec: \<open>NoteUtils.serialize\<close> is imported. It produces the
  header between two delimiter lines, then the body; what the header lists
  is the parameter \<open>header\<close>.
\<close>

definition frontmatter :: "('r NoteProps \<Rightarrow> bool \<Rightarrow> string) \<Rightarrow> 'r NoteProps \<Rightarrow> bool \<Rightarrow> string" where
  "frontmatter header note excludeStub =
     ''---\<newline>'' @ header note excludeStub @ ''---\<newline>'' @ body note"

text \<open>
  A workspace for the examples: the one further property of a note is its
  title, the header lists the identifier and the title, one on a line, the
  path of a note is its identifier under the root, and the hash of a text is
  the text.
\<close>

definition id_title_header :: "string NoteProps \<Rightarrow> bool \<Rightarrow> string" where
  "id_title_header note excludeStub =
     ''id: '' @ note_id note @ ''\<newline>title: '' @ rest note @ ''\<newline>''"

definition mem_common :: "string common_all" where
  "mem_common =
     \<lparr>getFullPath = (\<lambda>note root. root @ ''/'' @ note_id note @ ''.md''),
      serialize = frontmatter id_title_header,
      genHash = (\<lambda>text. text)\<rparr>"

definition mem_store ::
  "(string mem, string NotePropsMeta mem, string, string NotePropsMeta \<Rightarrow> bool) NoteStore" where
  "mem_store = \<lparr>fileStore = mem_fileStore, metadataStore = mem_dataStore, wsRoot = ''ws''\<rparr>"

definition empty_mem :: "'v mem" where
  "empty_mem = \<lparr>entries = [], offline = False\<rparr>"

definition down_mem :: "'v mem" where
  "down_mem = \<lparr>entries = [], offline = True\<rparr>"

text \<open>
  The notes and stores of the examples. \<open>note_a1\<close> is the note of the concrete
  scenario of the specification; the title of \<open>note_dashed\<close> contains the
  delimiter. In \<open>ws_two\<close> the text of the second note has no header. In
  \<open>ws_unlined\<close> the text of the note has two delimiters, neither on a line of
  its own.
\<close>

definition note_a1 :: "string NoteProps" where
  "note_a1 = \<lparr>note_id = ''a1'', contentHash = None, rest = ''foo'', body = ''hello''\<rparr>"

definition note_a2 :: "string NoteProps" where
  "note_a2 = \<lparr>note_id = ''a2'', contentHash = None, rest = ''bar'', body = ''world''\<rparr>"

definition note_dashed :: "string NoteProps" where
  "note_dashed = \<lparr>note_id = ''d1'', contentHash = None, rest = ''a---b'', body = ''hello''\<rparr>"

definition ws_one :: "string mem \<times> string NotePropsMeta mem" where
  "ws_one =
     (\<lparr>entries = [(''ws/a1.md'', ''---\<newline>id: a1\<newline>title: foo\<newline>---\<newline>hello'')], offline = False\<rparr>,
      \<lparr>entries = [(''a1'', omit_body note_a1)], offline = False\<rparr>)"

definition ws_two :: "string mem \<times> string NotePropsMeta mem" where
  "ws_two =
     (\<lparr>entries = [(''ws/a1.md'', ''---\<newline>id: a1\<newline>title: foo\<newline>---\<newline>hello''),
                  (''ws/a2.md'', ''world'')], offline = False\<rparr>,
      \<lparr>entries = [(''a1'', omit_body note_a1), (''a2'', omit_body note_a2)], offline = False\<rparr>)"

definition raw_dashed :: string where
  "raw_dashed = ''---\<newline>id: d1\<newline>title: a---b\<newline>---\<newline>hello''"

definition ws_dashed :: "string mem \<times> string NotePropsMeta mem" where
  "ws_dashed =
     (\<lparr>entries = [(''ws/d1.md'', raw_dashed)], offline = False\<rparr>,
      \<lparr>entries = [(''d1'', omit_body note_dashed)], offline = False\<rparr>)"

definition meta_u1 :: "string NotePropsMeta" where
  "meta_u1 = \<lparr>note_id = ''u1'', contentHash = None, rest = ''draft''\<rparr>"

definition raw_unlined :: string where
  "raw_unlined = ''---x---yz''"

definition ws_unlined :: "string mem \<times> string NotePropsMeta mem" where
  "ws_unlined =
     (\<lparr>entries = [(''ws/u1.md'', raw_unlined)], offline = False\<rparr>,
      \<lparr>entries = [(''u1'', meta_u1)], offline = False\<rparr>)"

section \<open>Facts about the header pattern\<close>

lemma upto_delim_None_iff: "upto_delim s = None \<longleftrightarrow> \<not> sublist ''---'' s"
  by (induction s) (auto simp: sublist_Cons_right)

lemma upto_delim_hit: "prefix ''---'' s \<Longrightarrow> upto_delim s = Some ''---''"
proof (cases s)
  case Nil
  assume "prefix ''---'' s"
  with Nil show ?thesis by simp
next
  case (Cons c cs)
  assume "prefix ''---'' s"
  with Cons show ?thesis by (simp only: upto_delim.simps if_True)
qed

lemma upto_delim_miss:
  "\<not> prefix ''---'' (c # cs) \<Longrightarrow> upto_delim (c # cs) = map_option ((#) c) (upto_delim cs)"
  by (simp only: upto_delim.simps if_False)

text \<open>The scan stops at the first delimiter: no delimiter starts inside \<open>p\<close>.\<close>

lemma upto_delim_first:
  "\<not> sublist ''---'' (p @ ''--'') \<Longrightarrow> upto_delim (p @ ''---'' @ r) = Some (p @ ''---'')"
proof (induction p)
  case Nil
  then show ?case by simp
next
  case (Cons c p)
  from Cons.prems have np: "\<not> prefix ''---'' ((c # p) @ ''--'')" and ns: "\<not> sublist ''---'' (p @ ''--'')"
    by (auto simp: sublist_Cons_right)
  from np have "\<not> prefix ''---'' ((c # p) @ ''---'' @ r)"
    by (cases p; cases "tl p") auto
  with Cons.IH [OF ns] show ?case by simp
qed

lemma upto_delim_Some_D:
  "upto_delim s = Some m \<Longrightarrow>
     \<exists>p r. m = p @ ''---'' \<and> s = m @ r \<and> \<not> sublist ''---'' (p @ ''--'')"
proof (induction s arbitrary: m)
  case Nil
  then show ?case by simp
next
  case (Cons c cs)
  show ?case
  proof (cases "prefix ''---'' (c # cs)")
    case True
    with Cons.prems have "m = ''---''" by (simp only: upto_delim_hit option.inject)
    moreover from True obtain r where "c # cs = ''---'' @ r" by (auto simp: prefix_def)
    ultimately show ?thesis by (intro exI [of _ "[]"] exI [of _ r]) (simp add: sublist_Cons_right)
  next
    case False
    from False have "upto_delim (c # cs) = map_option ((#) c) (upto_delim cs)"
      by (rule upto_delim_miss)
    with Cons.prems have "map_option ((#) c) (upto_delim cs) = Some m"
      by (simp only:)
    then obtain m' where m': "upto_delim cs = Some m'" "m = c # m'"
      by (auto simp only: map_option_eq_Some)
    from Cons.IH [OF m'(1)] obtain p r
      where pr: "m' = p @ ''---''" "cs = m' @ r" "\<not> sublist ''---'' (p @ ''--'')"
      by blast
    from False pr have "\<not> prefix ''---'' ((c # p) @ ''--'')"
      by (cases p; cases "tl p") auto
    with pr m' show ?thesis
      by (intro exI [of _ "c # p"] exI [of _ r]) (simp add: sublist_Cons_right)
  qed
qed

lemma match_frontmatter_None_iff: "match_frontmatter s = None \<longleftrightarrow> \<not> has_delimiter_pair s"
proof (cases "prefix ''---'' s")
  case False
  then show ?thesis by (simp add: match_frontmatter_def has_delimiter_pair_def)
next
  case True
  then obtain r where s: "s = ''---'' @ r" by (auto simp: prefix_def)
  show ?thesis
    by (cases r) (simp_all add: s match_frontmatter_def has_delimiter_pair_def upto_delim_None_iff)
qed

lemma has_delimiter_pair_iff:
  "has_delimiter_pair s \<longleftrightarrow> (\<exists>x r. x \<noteq> [] \<and> s = ''---'' @ x @ ''---'' @ r)"
proof
  assume "has_delimiter_pair s"
  then obtain t where s: "s = ''---'' @ t" and sub: "sublist ''---'' (drop 1 t)"
    by (auto simp: has_delimiter_pair_def prefix_def)
  from sub obtain p r where d: "drop 1 t = p @ ''---'' @ r" by (auto simp: sublist_def)
  then obtain c where t: "t = c # p @ ''---'' @ r" by (cases t) auto
  show "\<exists>x r. x \<noteq> [] \<and> s = ''---'' @ x @ ''---'' @ r"
    by (rule exI [of _ "c # p"], rule exI [of _ r]) (simp add: s t)
next
  assume "\<exists>x r. x \<noteq> [] \<and> s = ''---'' @ x @ ''---'' @ r"
  then obtain x r where x: "x \<noteq> []" and s: "s = ''---'' @ x @ ''---'' @ r" by blast
  from x obtain c p where "x = c # p" by (cases x) auto
  with s have "prefix ''---'' s" and "drop 4 s = p @ ''---'' @ r"
    by simp_all
  moreover have "sublist ''---'' (p @ ''---'' @ r)"
    by (rule sublist_appendI)
  ultimately show "has_delimiter_pair s"
    by (simp only: has_delimiter_pair_def simp_thms)
qed

lemma match_frontmatter_first:
  assumes "\<not> sublist ''---'' (p @ ''--'')"
  shows "match_frontmatter (''---'' @ c # p @ ''---'' @ r) = Some (''---'' @ c # p @ ''---'')"
  using upto_delim_first [OF assms, of r] by (simp add: match_frontmatter_def)

text \<open>A header made of whole lines: a delimiter cannot start in it and end in
  the closing delimiter.\<close>

lemma lines_no_straddle:
  assumes "hdr = [] \<or> last hdr = CHR ''\<newline>''" and "\<not> sublist ''---'' hdr"
  shows "\<not> sublist ''---'' (hdr @ ''--'')"
proof
  assume "sublist ''---'' (hdr @ ''--'')"
  with assms(2) obtain xs1 xs2 where x: "''---'' = xs1 @ xs2" "suffix xs1 hdr" "prefix xs2 ''--''"
    by (auto simp: sublist_append sublist_Cons_right)
  from x(1,3) have "xs1 \<noteq> []" by (auto simp: prefix_def)
  with x(1) have "last xs1 = CHR ''-''"
    by (auto simp: append_eq_Cons_conv Cons_eq_append_conv)
  with x(2) \<open>xs1 \<noteq> []\<close> have "hdr \<noteq> []" "last hdr = CHR ''-''"
    by (auto simp: suffix_def)
  with assms(1) show False by simp
qed

lemma match_frontmatter_header_span:
  assumes "header_span raw hdr after" and "\<not> sublist ''---'' hdr"
  shows "match_frontmatter raw = Some (''---\<newline>'' @ hdr @ ''---'')"
    and "drop (length (''---\<newline>'' @ hdr @ ''---'') + 1) raw = drop 1 after"
proof -
  from assms(1) have raw: "raw = ''---'' @ CHR ''\<newline>'' # hdr @ ''---'' @ after"
    and l: "hdr = [] \<or> last hdr = CHR ''\<newline>''"
    by (simp_all add: header_span_def)
  from match_frontmatter_first [OF lines_no_straddle [OF l assms(2)], of "CHR ''\<newline>''" after]
  show "match_frontmatter raw = Some (''---\<newline>'' @ hdr @ ''---'')"
    by (simp add: raw)
  show "drop (length (''---\<newline>'' @ hdr @ ''---'') + 1) raw = drop 1 after"
    by (simp add: raw)
qed

text \<open>A text that starts with a header span has a delimiter pair.\<close>

lemma header_span_has_delimiter_pair:
  assumes "header_span raw hdr after"
  shows "has_delimiter_pair raw"
proof -
  from assms have raw: "raw = ''---'' @ CHR ''\<newline>'' # hdr @ ''---'' @ after"
    by (simp add: header_span_def)
  then have "prefix ''---'' raw" and "drop 4 raw = hdr @ ''---'' @ after"
    by simp_all
  moreover have "sublist ''---'' (hdr @ ''---'' @ after)"
    by (rule sublist_appendI)
  ultimately show ?thesis
    by (simp only: has_delimiter_pair_def simp_thms)
qed

section \<open>Facts about the methods\<close>

lemmas mem_eval =
  mem_store_def mem_common_def mem_dataStore_def mem_fileStore_def
  mem_read_def mem_find_def mem_write_def mem_delete_def empty_mem_def down_mem_def
  frontmatter_def id_title_header_def
  note_a1_def note_a2_def note_dashed_def ws_one_def ws_two_def ws_dashed_def raw_dashed_def
  meta_u1_def raw_unlined_def ws_unlined_def
  omit_body_def NotePropsMeta.defs NoteProps.defs

lemmas method_defs =
  getMetadata_def getNonMetadata_def get_def findMetaData_def find_notes_def
  writeMetadata_def write_note_def delete_def rename_def
  collect_def isNotUndefined_def match_frontmatter_def createFromStatus_def

lemma getMetadata_eq: "getMetadata S st key = ms_get (metadataStore S) (snd st) key"
  by (simp add: getMetadata_def split: sum.splits)

lemma findMetaData_eq: "findMetaData S st opts = ms_find (metadataStore S) (snd st) opts"
  by (simp add: findMetaData_def split: sum.splits)

subsection \<open>\<open>find\<close>\<close>

lemma foldl_collect:
  "foldl collect (es, ds) rs =
     (es @ map projl (filter isl rs), ds @ map (\<lambda>r. Some (projr r)) (filter (\<lambda>r. \<not> isl r) rs))"
proof (induction rs arbitrary: es ds)
  case Nil
  then show ?case by simp
next
  case (Cons r rs)
  then show ?case by (cases r) (simp_all add: collect_def)
qed

lemma filter_isNotUndefined: "map the (filter isNotUndefined (map (\<lambda>r. Some (f r)) xs)) = map f xs"
  by (induction xs) (simp_all add: isNotUndefined_def)

lemma find_notes_found:
  assumes "findMetaData S st q = Inr rows"
  shows "find_notes C S st q =
     (let rs = map (\<lambda>m. get C S st (note_id m)) rows
      in \<lparr>error = (if filter isl rs \<noteq> [] then Some (DendronCompositeError (map projl (filter isl rs))) else None),
          data = Some (map projr (filter (\<lambda>r. \<not> isl r) rs))\<rparr>)"
  using assms by (simp add: find_notes_def Let_def foldl_collect filter_isNotUndefined)

lemma find_notes_failed:
  assumes "findMetaData S st q = Inl e"
  shows "find_notes C S st q = \<lparr>error = Some (DendronCompositeError [e]), data = None\<rparr>"
  using assms by (simp add: find_notes_def)

text \<open>
  C1. If \<open>findMetaData\<close> fails, \<open>find\<close> returns the composite error of that one
  error and no data. If it returns \<open>N\<close> rows and \<open>M\<close> of the \<open>get\<close> calls fail,
  the data are the notes of the \<open>N - M\<close> calls that succeeded, and for
  \<open>M \<ge> 1\<close> the error is the composite of the \<open>M\<close> errors.
\<close>

theorem find_partial_failure:
  "(\<forall>e. findMetaData S st q = Inl e \<longrightarrow>
      find_notes C S st q = \<lparr>error = Some (DendronCompositeError [e]), data = None\<rparr>) \<and>
   (\<forall>rows. findMetaData S st q = Inr rows \<longrightarrow>
      (let rs = map (\<lambda>m. get C S st (note_id m)) rows;
           failed = filter isl rs;
           merged = filter (\<lambda>r. \<not> isl r) rs
       in data (find_notes C S st q) = Some (map projr merged) \<and>
          length merged = length rows - length failed \<and>
          (1 \<le> length failed \<longrightarrow>
             error (find_notes C S st q) = Some (DendronCompositeError (map projl failed)) \<and>
             length (errors (the (error (find_notes C S st q)))) = length failed)))"
proof (intro conjI allI impI)
  fix e assume "findMetaData S st q = Inl e"
  then show "find_notes C S st q = \<lparr>error = Some (DendronCompositeError [e]), data = None\<rparr>"
    by (rule find_notes_failed)
next
  fix rows assume rows: "findMetaData S st q = Inr rows"
  define rs where "rs = map (\<lambda>m. get C S st (note_id m)) rows"
  have len: "length (filter (\<lambda>r. \<not> isl r) rs) = length rows - length (filter isl rs)"
    using sum_length_filter_compl [of isl rs] by (simp add: rs_def)
  have fn: "find_notes C S st q =
      \<lparr>error = (if filter isl rs \<noteq> [] then Some (DendronCompositeError (map projl (filter isl rs))) else None),
       data = Some (map projr (filter (\<lambda>r. \<not> isl r) rs))\<rparr>"
    unfolding rs_def using find_notes_found [OF rows, of C] by (simp only: Let_def)
  have "data (find_notes C S st q) = Some (map projr (filter (\<lambda>r. \<not> isl r) rs))"
    by (simp add: fn)
  moreover have "1 \<le> length (filter isl rs) \<longrightarrow>
      error (find_notes C S st q) = Some (DendronCompositeError (map projl (filter isl rs))) \<and>
      length (errors (the (error (find_notes C S st q)))) = length (filter isl rs)"
    by (auto simp add: fn)
  ultimately show "let rs = map (\<lambda>m. get C S st (note_id m)) rows;
           failed = filter isl rs;
           merged = filter (\<lambda>r. \<not> isl r) rs
       in data (find_notes C S st q) = Some (map projr merged) \<and>
          length merged = length rows - length failed \<and>
          (1 \<le> length failed \<longrightarrow>
             error (find_notes C S st q) = Some (DendronCompositeError (map projl failed)) \<and>
             length (errors (the (error (find_notes C S st q)))) = length failed)"
    using len unfolding Let_def rs_def by blast
qed

text \<open>
  With the metadata store down the one error is wrapped; in \<open>ws_two\<close> the query
  for all rows finds two, the text of the second has no header, and \<open>find\<close>
  returns the first note together with the composite of the one error.
\<close>

theorem find_partial_failure_witness:
  "findMetaData mem_store (empty_mem, down_mem) (\<lambda>m. True) = Inl backend_down \<and>
   find_notes mem_common mem_store (empty_mem, down_mem) (\<lambda>m. True) =
     \<lparr>error = Some (DendronCompositeError [backend_down]), data = None\<rparr> \<and>
   findMetaData mem_store ws_two (\<lambda>m. True) = Inr [omit_body note_a1, omit_body note_a2] \<and>
   data (find_notes mem_common mem_store ws_two (\<lambda>m. True)) =
     Some [note_a1\<lparr>contentHash := Some ''---\<newline>id: a1\<newline>title: foo\<newline>---\<newline>hello''\<rparr>] \<and>
   error (find_notes mem_common mem_store ws_two (\<lambda>m. True)) =
     Some (DendronCompositeError
       [createFromStatus BAD_PARSE_FOR_NOTE
          ''Frontmatter missing for file ws/a2.md associated with note a2.'' MINOR])"
proof -
  have down: "findMetaData mem_store (empty_mem, down_mem) (\<lambda>m. True) = Inl backend_down"
    by (simp add: findMetaData_def mem_eval)
  have rows: "findMetaData mem_store ws_two (\<lambda>m. True) = Inr [omit_body note_a1, omit_body note_a2]"
    by (simp add: findMetaData_def mem_eval)
  have g1: "get mem_common mem_store ws_two ''a1'' =
      Inr (note_a1\<lparr>contentHash := Some ''---\<newline>id: a1\<newline>title: foo\<newline>---\<newline>hello''\<rparr>)"
    by (simp add: get_def getMetadata_def getNonMetadata_def match_frontmatter_def mem_eval)
  have g2: "get mem_common mem_store ws_two ''a2'' =
      Inl (createFromStatus BAD_PARSE_FOR_NOTE
          ''Frontmatter missing for file ws/a2.md associated with note a2.'' MINOR)"
    by (simp add: get_def getMetadata_def getNonMetadata_def match_frontmatter_def mem_eval)
  have ids: "note_id (omit_body note_a1) = ''a1''" "note_id (omit_body note_a2) = ''a2''"
    by (simp_all add: mem_eval)
  from find_partial_failure [of mem_store "(empty_mem, down_mem)" "\<lambda>m. True" mem_common]
       find_partial_failure [of mem_store ws_two "\<lambda>m. True" mem_common]
  show ?thesis
    by (simp add: down rows g1 g2 ids Let_def)
qed

text \<open>
  C10. If \<open>findMetaData\<close> succeeds and every \<open>get\<close> succeeds, also for no row at
  all, the error of \<open>find\<close> is \<open>null\<close>, not a composite error of no members,
  and the data are the notes of all rows.
\<close>

theorem find_all_succeed_error_null:
  assumes "findMetaData S st q = Inr rows"
    and "\<forall>m \<in> set rows. \<not> isl (get C S st (note_id m))"
  shows "find_notes C S st q =
           \<lparr>error = None, data = Some (map (\<lambda>m. projr (get C S st (note_id m))) rows)\<rparr> \<and>
         error (find_notes C S st q) \<noteq> Some (DendronCompositeError []) \<and>
         length (the (data (find_notes C S st q))) = length rows"
proof -
  from assms(2) have "filter isl (map (\<lambda>m. get C S st (note_id m)) rows) = []"
    by (simp add: filter_empty_conv)
  moreover from assms(2)
  have "filter (\<lambda>r. \<not> isl r) (map (\<lambda>m. get C S st (note_id m)) rows) = map (\<lambda>m. get C S st (note_id m)) rows"
    by (simp add: filter_id_conv)
  ultimately show ?thesis
    by (simp add: find_notes_found [OF assms(1)] Let_def comp_def)
qed

theorem find_all_succeed_error_null_witness:
  "findMetaData mem_store ws_one (\<lambda>m. True) = Inr [omit_body note_a1] \<and>
   findMetaData mem_store (empty_mem, empty_mem) (\<lambda>m. True) = Inr [] \<and>
   find_notes mem_common mem_store ws_one (\<lambda>m. True) =
     \<lparr>error = None,
      data = Some [note_a1\<lparr>contentHash := Some ''---\<newline>id: a1\<newline>title: foo\<newline>---\<newline>hello''\<rparr>]\<rparr> \<and>
   find_notes mem_common mem_store (empty_mem, empty_mem) (\<lambda>m. True) = \<lparr>error = None, data = Some []\<rparr>"
proof -
  have rows1: "findMetaData mem_store ws_one (\<lambda>m. True) = Inr [omit_body note_a1]"
    by (simp add: findMetaData_def mem_eval)
  have g1: "get mem_common mem_store ws_one (note_id (omit_body note_a1)) =
      Inr (note_a1\<lparr>contentHash := Some ''---\<newline>id: a1\<newline>title: foo\<newline>---\<newline>hello''\<rparr>)"
    by (simp add: get_def getMetadata_def getNonMetadata_def match_frontmatter_def mem_eval)
  then have ok1: "\<forall>m \<in> set [omit_body note_a1]. \<not> isl (get mem_common mem_store ws_one (note_id m))"
    by simp
  have rows0: "findMetaData mem_store (empty_mem, empty_mem) (\<lambda>m. True) = Inr []"
    by (simp add: findMetaData_def mem_eval)
  have ok0: "\<forall>m \<in> set []. \<not> isl (get mem_common mem_store (empty_mem, empty_mem) (note_id m))"
    by simp
  from find_all_succeed_error_null [OF rows1 ok1] find_all_succeed_error_null [OF rows0 ok0] g1 rows1 rows0
  show ?thesis by simp
qed

subsection \<open>\<open>writeMetadata\<close> and \<open>write\<close>\<close>

lemma writeMetadata_Inr_iff:
  "writeMetadata S st key note = (Inr k, st') \<longleftrightarrow>
     key = note_id note \<and> k = key \<and>
     (\<exists>a. ms_write (metadataStore S) (snd st) key (omit_body note) = (Inr a, snd st')) \<and> fst st' = fst st"
  by (cases st') (auto simp add: writeMetadata_def Let_def split: prod.splits sum.splits)


text \<open>
  C4. If the identifier of the note differs from the key, \<open>writeMetadata\<close> and
  \<open>write\<close> fail with the error of the identifier mismatch (status
  \<open>WRITE_FAILED\<close>, minor), and both stores are as they were.
\<close>

theorem id_mismatch_fails_without_io:
  assumes "key \<noteq> note_id note"
  shows "writeMetadata S st key note =
           (Inl (createFromStatus WRITE_FAILED
                  (''Ids don't match between key '' @ key @ '' and note [object Object].'') MINOR), st) \<and>
         write_note C S st key note =
           (Inl (createFromStatus WRITE_FAILED
                  (''Ids don't match between key '' @ key @ '' and note [object Object].'') MINOR), st)"
  using assms by (simp add: write_note_def writeMetadata_def)

theorem id_mismatch_fails_without_io_witness:
  "''a2'' \<noteq> note_id note_a1 \<and>
   writeMetadata mem_store ws_one ''a2'' note_a1 =
     (Inl (createFromStatus WRITE_FAILED
            ''Ids don't match between key a2 and note [object Object].'' MINOR), ws_one) \<and>
   write_note mem_common mem_store ws_one ''a2'' note_a1 =
     (Inl (createFromStatus WRITE_FAILED
            ''Ids don't match between key a2 and note [object Object].'' MINOR), ws_one)"
proof -
  have h: "''a2'' \<noteq> note_id note_a1" by (simp add: note_a1_def)
  from id_mismatch_fails_without_io [OF h, of mem_store ws_one mem_common] h
  show ?thesis by simp
qed

text \<open>
  C8. A successful \<open>writeMetadata\<close> returns the key, and what it has done is
  the write of the metadata store under the key with the projection of the
  note, which is the note without \<open>body\<close>: every other field is kept, and
  the projection extended by the body is the note again. The content store
  is as it was.
\<close>

theorem writeMetadata_writes_projection:
  assumes "writeMetadata S st key note = (Inr k, st')"
  shows "k = key \<and> note_id note = key \<and> fst st' = fst st \<and>
         (\<exists>a. ms_write (metadataStore S) (snd st) key (omit_body note) = (Inr a, snd st')) \<and>
         omit_body note = \<lparr>note_id = note_id note, contentHash = contentHash note, rest = rest note\<rparr> \<and>
         NotePropsMeta.extend (omit_body note) (NoteProps.fields (body note)) = note"
proof -
  from assms have "key = note_id note" "k = key" "fst st' = fst st"
    and "\<exists>a. ms_write (metadataStore S) (snd st) key (omit_body note) = (Inr a, snd st')"
    unfolding writeMetadata_Inr_iff by blast+
  moreover have "omit_body note = \<lparr>note_id = note_id note, contentHash = contentHash note, rest = rest note\<rparr>"
    by (simp add: omit_body_def NotePropsMeta.defs)
  moreover have "NotePropsMeta.extend (omit_body note) (NoteProps.fields (body note)) = note"
    by (simp add: omit_body_def NotePropsMeta.defs NoteProps.defs)
  ultimately show ?thesis by blast
qed

theorem writeMetadata_writes_projection_witness:
  "writeMetadata mem_store (empty_mem, empty_mem) ''a1'' note_a1 =
     (Inr ''a1'', (empty_mem, \<lparr>entries = [(''a1'', omit_body note_a1)], offline = False\<rparr>)) \<and>
   ms_write (metadataStore mem_store) empty_mem ''a1'' (omit_body note_a1) =
     (Inr ''a1'', \<lparr>entries = [(''a1'', omit_body note_a1)], offline = False\<rparr>) \<and>
   omit_body note_a1 = \<lparr>note_id = ''a1'', contentHash = None, rest = ''foo''\<rparr>"
proof -
  have h: "writeMetadata mem_store (empty_mem, empty_mem) ''a1'' note_a1 =
     (Inr ''a1'', (empty_mem, \<lparr>entries = [(''a1'', omit_body note_a1)], offline = False\<rparr>))"
    by (simp add: writeMetadata_def mem_eval)
  have w: "ms_write (metadataStore mem_store) empty_mem ''a1'' (omit_body note_a1) =
     (Inr ''a1'', \<lparr>entries = [(''a1'', omit_body note_a1)], offline = False\<rparr>)"
    by (simp add: mem_eval)
  from writeMetadata_writes_projection [OF h] h w
  show ?thesis by (simp add: note_a1_def)
qed



lemma mem_fileStore_write_stores: "fs_write_stores mem_fileStore"
  by (auto simp add: fs_write_stores_def mem_fileStore_def mem_write_def mem_read_def split: if_splits)


subsection \<open>\<open>rename\<close>\<close>

text \<open>
  C9. \<open>rename\<close> returns the name of the old location followed by the name of
  the new one as its data, and both stores are as they were.
\<close>

theorem rename_concatenates_names:
  "rename S st oldLoc newLoc = (Inr (fname oldLoc @ fname newLoc), st)"
  by (simp add: rename_def)

subsection \<open>\<open>delete\<close>\<close>

lemma map_of_filter_key: "map_of (filter (\<lambda>e. fst e \<noteq> k) xs) k = None"
  by (induction xs) auto

lemma mem_fileStore_delete_removes: "fs_delete_removes mem_fileStore"
  by (auto simp add: fs_delete_removes_def mem_fileStore_def mem_delete_def mem_read_def map_of_filter_key
      split: if_splits option.splits)

lemma mem_dataStore_delete_removes: "ms_delete_removes mem_dataStore"
  by (auto simp add: ms_delete_removes_def mem_dataStore_def mem_delete_def mem_read_def map_of_filter_key
      split: if_splits option.splits)

lemma delete_Inr_D:
  assumes "delete C S st key = (Inr k, st')"
  shows "\<exists>metadata a b.
           getMetadata S st key = Inr metadata \<and>
           fs_delete (fileStore S) (fst st) (getFullPath C metadata (wsRoot S)) = (Inr a, fst st') \<and>
           ms_delete (metadataStore S) (snd st) key = (Inr b, snd st') \<and> k = key"
  using assms
  by (cases st') (auto simp add: delete_def Let_def split: sum.splits prod.splits)

text \<open>
  C6. \<open>delete\<close> fetches the metadata, deletes the content, then deletes the
  row. If the fetch fails, that error is returned and both stores are as
  they were. If the deletion of the content fails, that error is returned,
  the metadata store is as it was and still has the row. If it succeeds, the
  outcome is that of the deletion of the row. After a successful \<open>delete\<close>,
  with stores that remove what they delete, neither the content under the
  path of the note nor the row under the identifier is found.
\<close>

theorem delete_content_then_metadata:
  "(\<forall>e. getMetadata S st key = Inl e \<longrightarrow> delete C S st key = (Inl e, st)) \<and>
   (\<forall>metadata e fs'.
      getMetadata S st key = Inr metadata \<longrightarrow>
      fs_delete (fileStore S) (fst st) (getFullPath C metadata (wsRoot S)) = (Inl e, fs') \<longrightarrow>
      delete C S st key = (Inl e, (fs', snd st)) \<and>
      getMetadata S (snd (delete C S st key)) key = Inr metadata) \<and>
   (\<forall>metadata a fs' r ms'.
      getMetadata S st key = Inr metadata \<longrightarrow>
      fs_delete (fileStore S) (fst st) (getFullPath C metadata (wsRoot S)) = (Inr a, fs') \<longrightarrow>
      ms_delete (metadataStore S) (snd st) key = (r, ms') \<longrightarrow>
      delete C S st key = ((case r of Inl e \<Rightarrow> Inl e | Inr b \<Rightarrow> Inr key), (fs', ms'))) \<and>
   (\<forall>k st'.
      delete C S st key = (Inr k, st') \<longrightarrow>
      fs_delete_removes (fileStore S) \<longrightarrow> ms_delete_removes (metadataStore S) \<longrightarrow>
      k = key \<and> isl (getMetadata S st' key) \<and>
      (\<exists>metadata. getMetadata S st key = Inr metadata \<and>
         isl (getNonMetadata S st' (getFullPath C metadata (wsRoot S)))))"
proof (intro conjI allI impI)
  fix e assume "getMetadata S st key = Inl e"
  then show "delete C S st key = (Inl e, st)"
    by (simp add: delete_def)
next
  fix metadata e fs'
  assume m: "getMetadata S st key = Inr metadata"
    and f: "fs_delete (fileStore S) (fst st) (getFullPath C metadata (wsRoot S)) = (Inl e, fs')"
  then show d: "delete C S st key = (Inl e, (fs', snd st))"
    by (simp add: delete_def Let_def)
  from m show "getMetadata S (snd (delete C S st key)) key = Inr metadata"
    by (simp add: d getMetadata_eq)
next
  fix metadata a fs' r ms'
  assume "getMetadata S st key = Inr metadata"
    and "fs_delete (fileStore S) (fst st) (getFullPath C metadata (wsRoot S)) = (Inr a, fs')"
    and "ms_delete (metadataStore S) (snd st) key = (r, ms')"
  then show "delete C S st key = ((case r of Inl e \<Rightarrow> Inl e | Inr b \<Rightarrow> Inr key), (fs', ms'))"
    by (cases r) (simp_all add: delete_def Let_def)
next
  fix k st'
  assume d: "delete C S st key = (Inr k, st')"
    and cf: "fs_delete_removes (fileStore S)" and cm: "ms_delete_removes (metadataStore S)"
  from delete_Inr_D [OF d] obtain metadata a b where
    m: "getMetadata S st key = Inr metadata"
    and f: "fs_delete (fileStore S) (fst st) (getFullPath C metadata (wsRoot S)) = (Inr a, fst st')"
    and r: "ms_delete (metadataStore S) (snd st) key = (Inr b, snd st')"
    and k: "k = key"
    by blast
  from k show "k = key" .
  from cm r show "isl (getMetadata S st' key)"
    unfolding ms_delete_removes_def getMetadata_eq by blast
  from cf f have "isl (getNonMetadata S st' (getFullPath C metadata (wsRoot S)))"
    unfolding fs_delete_removes_def getNonMetadata_def by blast
  with m show "\<exists>metadata. getMetadata S st key = Inr metadata \<and>
         isl (getNonMetadata S st' (getFullPath C metadata (wsRoot S)))"
    by blast
qed

text \<open>
  With the metadata store down nothing is deleted; with only the content
  store down the row of \<open>a1\<close> stays; in \<open>ws_one\<close> both halves of \<open>a1\<close> are
  deleted and neither is found afterwards.
\<close>

theorem delete_content_then_metadata_witness:
  "getMetadata mem_store (empty_mem, down_mem) ''a1'' = Inl backend_down \<and>
   delete mem_common mem_store (empty_mem, down_mem) ''a1'' = (Inl backend_down, (empty_mem, down_mem)) \<and>
   getMetadata mem_store (down_mem, snd ws_one) ''a1'' = Inr (omit_body note_a1) \<and>
   fs_delete (fileStore mem_store) down_mem ''ws/a1.md'' = (Inl backend_down, down_mem) \<and>
   delete mem_common mem_store (down_mem, snd ws_one) ''a1'' = (Inl backend_down, (down_mem, snd ws_one)) \<and>
   fs_delete_removes (fileStore mem_store) \<and> ms_delete_removes (metadataStore mem_store) \<and>
   delete mem_common mem_store ws_one ''a1'' = (Inr ''a1'', (empty_mem, empty_mem)) \<and>
   isl (getMetadata mem_store (empty_mem, empty_mem) ''a1'') \<and>
   isl (getNonMetadata mem_store (empty_mem, empty_mem) ''ws/a1.md'')"
proof -
  have m0: "getMetadata mem_store (empty_mem, down_mem) ''a1'' = Inl backend_down"
    by (simp add: getMetadata_def mem_eval)
  have m1: "getMetadata mem_store (down_mem, snd ws_one) ''a1'' = Inr (omit_body note_a1)"
    by (simp add: getMetadata_def mem_eval)
  have p: "getFullPath mem_common (omit_body note_a1) (wsRoot mem_store) = ''ws/a1.md''"
    by (simp add: mem_eval)
  have f1: "fs_delete (fileStore mem_store) down_mem ''ws/a1.md'' = (Inl backend_down, down_mem)"
    by (simp add: mem_eval)
  have cf: "fs_delete_removes (fileStore mem_store)"
    by (simp add: mem_store_def mem_fileStore_delete_removes)
  have cm: "ms_delete_removes (metadataStore mem_store)"
    by (simp add: mem_store_def mem_dataStore_delete_removes)
  have d: "delete mem_common mem_store ws_one ''a1'' = (Inr ''a1'', (empty_mem, empty_mem))"
    by (simp add: delete_def getMetadata_def mem_eval)
  have g: "getFullPath mem_common metadata (wsRoot mem_store) = ''ws/a1.md''"
    if "getMetadata mem_store ws_one ''a1'' = Inr metadata" for metadata
    using that by (auto simp add: getMetadata_def mem_eval)
  from delete_content_then_metadata [of mem_store "(empty_mem, down_mem)" "''a1''" mem_common]
       delete_content_then_metadata [of mem_store "(down_mem, snd ws_one)" "''a1''" mem_common]
       delete_content_then_metadata [of mem_store ws_one "''a1''" mem_common]
       m0 m1 f1 cf cm d g
  show ?thesis by (auto simp add: p)
qed

subsection \<open>\<open>get\<close>\<close>

lemma get_fetched:
  assumes "getMetadata S st key = Inr metadata"
    and "getNonMetadata S st (getFullPath C metadata (wsRoot S)) = Inr raw"
  shows "get C S st key =
     (case match_frontmatter raw of
        Some capture \<Rightarrow>
          Inr (NotePropsMeta.extend (metadata\<lparr>contentHash := Some (genHash C raw)\<rparr>)
                 (NoteProps.fields (drop (length capture + 1) raw)))
      | None \<Rightarrow>
          Inl (createFromStatus BAD_PARSE_FOR_NOTE
                (''Frontmatter missing for file '' @ getFullPath C metadata (wsRoot S) @
                 '' associated with note '' @ key @ ''.'') MINOR))"
  using assms by (simp add: get_def Let_def split: option.splits)

text \<open>
  Where the content has no delimiter pair at its start, \<open>get\<close> returns no
  data but the error of status \<open>BAD_PARSE_FOR_NOTE\<close> and minor severity, and
  its message contains the resolved path and the identifier. A content
  without a header span may still have a delimiter pair.
\<close>

lemma get_without_delimiter_pair_fails:
  assumes "getMetadata S st key = Inr metadata"
    and "getNonMetadata S st (getFullPath C metadata (wsRoot S)) = Inr raw"
    and "\<not> has_delimiter_pair raw"
  shows "\<exists>e. get C S st key = Inl e \<and>
           status e = Some BAD_PARSE_FOR_NOTE \<and> severity e = Some MINOR \<and>
           message e = ''Frontmatter missing for file '' @ getFullPath C metadata (wsRoot S) @
                       '' associated with note '' @ key @ ''.'' \<and>
           sublist (getFullPath C metadata (wsRoot S)) (message e) \<and>
           sublist key (message e)"
proof -
  let ?fpath = "getFullPath C metadata (wsRoot S)"
  let ?msg = "''Frontmatter missing for file '' @ ?fpath @ '' associated with note '' @ key @ ''.''"
  from assms(3) have "match_frontmatter raw = None"
    by (simp add: match_frontmatter_None_iff)
  with get_fetched [OF assms(1,2)]
  have g: "get C S st key = Inl (createFromStatus BAD_PARSE_FOR_NOTE ?msg MINOR)"
    by simp
  have "sublist ?fpath ?msg"
    by (rule sublist_appendI)
  moreover have "sublist key ((''Frontmatter missing for file '' @ ?fpath @ '' associated with note '') @ key @ ''.'')"
    by (rule sublist_appendI)
  then have "sublist key ?msg" by simp
  ultimately show ?thesis
    using g by (simp add: createFromStatus_def)
qed

lemma get_without_delimiter_pair_fails_a2:
  "getMetadata mem_store ws_two ''a2'' = Inr (omit_body note_a2) \<and>
   getNonMetadata mem_store ws_two ''ws/a2.md'' = Inr ''world'' \<and>
   \<not> has_delimiter_pair ''world'' \<and>
   get mem_common mem_store ws_two ''a2'' =
     Inl (createFromStatus BAD_PARSE_FOR_NOTE
           ''Frontmatter missing for file ws/a2.md associated with note a2.'' MINOR)"
proof -
  have m: "getMetadata mem_store ws_two ''a2'' = Inr (omit_body note_a2)"
    by (simp add: getMetadata_def mem_eval)
  have p: "getFullPath mem_common (omit_body note_a2) (wsRoot mem_store) = ''ws/a2.md''"
    by (simp add: mem_eval)
  have r: "getNonMetadata mem_store ws_two ''ws/a2.md'' = Inr ''world''"
    by (simp add: getNonMetadata_def mem_eval)
  have r': "getNonMetadata mem_store ws_two (getFullPath mem_common (omit_body note_a2) (wsRoot mem_store)) = Inr ''world''"
    by (simp only: p r)
  have n: "\<not> has_delimiter_pair ''world''"
    by (simp add: has_delimiter_pair_def)
  from get_without_delimiter_pair_fails [OF m r' n] m r n
  show ?thesis by (auto simp add: p createFromStatus_def)
qed

text \<open>
  C7. The content of \<open>u1\<close> in \<open>ws_unlined\<close> does not begin with a header span:
  its fourth character is not a line break, so the opening delimiter is not
  on a line of its own, whatever the header and the rest are taken to be.
  The metadata and the content are fetched, and \<open>get\<close> does not fail with
  the error of the missing header: the pattern finds a delimiter pair, and
  \<open>get\<close> returns a note, with the body \<open>z\<close>.
\<close>

theorem get_accepts_delimiters_within_line:
  "getMetadata mem_store ws_unlined ''u1'' = Inr meta_u1 \<and>
   getNonMetadata mem_store ws_unlined (getFullPath mem_common meta_u1 (wsRoot mem_store))
     = Inr raw_unlined \<and>
   raw_unlined = ''---x---yz'' \<and>
   (\<nexists>hdr after. header_span raw_unlined hdr after) \<and>
   get mem_common mem_store ws_unlined ''u1'' =
     Inr \<lparr>note_id = ''u1'', contentHash = Some raw_unlined, rest = ''draft'', body = ''z''\<rparr> \<and>
   \<not> isl (get mem_common mem_store ws_unlined ''u1'')"
proof -
  have m: "getMetadata mem_store ws_unlined ''u1'' = Inr meta_u1"
    by (simp add: getMetadata_def mem_eval)
  have r: "getNonMetadata mem_store ws_unlined (getFullPath mem_common meta_u1 (wsRoot mem_store))
      = Inr raw_unlined"
    by (simp add: getNonMetadata_def mem_eval)
  have n: "\<nexists>hdr after. header_span raw_unlined hdr after"
    by (simp add: header_span_def raw_unlined_def)
  have g: "get mem_common mem_store ws_unlined ''u1'' =
      Inr \<lparr>note_id = ''u1'', contentHash = Some raw_unlined, rest = ''draft'', body = ''z''\<rparr>"
    by (simp add: get_def getMetadata_def getNonMetadata_def match_frontmatter_def mem_eval)
  from m r n g show ?thesis
    by (simp add: raw_unlined_def)
qed

text \<open>
  Where no delimiter occurs inside the header, \<open>get\<close> returns the body of the
  specification: the text behind the closing delimiter without its first
  character, and the hash of the whole text.
\<close>

lemma get_plain_header_span:
  assumes "getMetadata S st key = Inr metadata"
    and "getNonMetadata S st (getFullPath C metadata (wsRoot S)) = Inr raw"
    and "header_span raw hdr after"
    and "\<not> sublist ''---'' hdr"
  shows "get C S st key =
           Inr (NotePropsMeta.extend (metadata\<lparr>contentHash := Some (genHash C raw)\<rparr>)
                  (NoteProps.fields (drop 1 after)))"
  using get_fetched [OF assms(1,2)] match_frontmatter_header_span [OF assms(3,4)]
  by simp

lemma get_ws_dashed:
  "get mem_common mem_store ws_dashed ''d1'' =
     Inr (note_dashed\<lparr>contentHash := Some raw_dashed, body := ''\<newline>---\<newline>hello''\<rparr>)"
  by (simp add: get_def getMetadata_def getNonMetadata_def match_frontmatter_def mem_eval)

text \<open>
  C2. The content of \<open>d1\<close> in \<open>ws_dashed\<close> starts with a header span: the two
  delimiter lines enclose the lines of the identifier and of the title, and
  the text behind the closing delimiter is a line break and \<open>hello\<close>, so that
  the body of the specification is \<open>hello\<close>. The title contains the
  delimiter; the pattern of \<open>get\<close> ends the header there, and the body
  returned starts inside the header.
\<close>

theorem get_header_with_inner_delimiter:
  "getMetadata mem_store ws_dashed ''d1'' = Inr (omit_body note_dashed) \<and>
   getNonMetadata mem_store ws_dashed (getFullPath mem_common (omit_body note_dashed) (wsRoot mem_store))
     = Inr raw_dashed \<and>
   header_span raw_dashed ''id: d1\<newline>title: a---b\<newline>'' ''\<newline>hello'' \<and>
   drop 1 ''\<newline>hello'' = ''hello'' \<and>
   get mem_common mem_store ws_dashed ''d1'' =
     Inr (note_dashed\<lparr>contentHash := Some raw_dashed, body := ''\<newline>---\<newline>hello''\<rparr>) \<and>
   body (projr (get mem_common mem_store ws_dashed ''d1'')) \<noteq> ''hello''"
proof -
  have "getMetadata mem_store ws_dashed ''d1'' = Inr (omit_body note_dashed)"
    by (simp add: getMetadata_def mem_eval)
  moreover have "getNonMetadata mem_store ws_dashed
      (getFullPath mem_common (omit_body note_dashed) (wsRoot mem_store)) = Inr raw_dashed"
    by (simp add: getNonMetadata_def mem_eval)
  moreover have "header_span raw_dashed ''id: d1\<newline>title: a---b\<newline>'' ''\<newline>hello''"
    by (simp add: header_span_def raw_dashed_def sublist_Cons_right)
  moreover have "body (projr (get mem_common mem_store ws_dashed ''d1'')) \<noteq> ''hello''"
    by (simp add: get_ws_dashed)
  ultimately show ?thesis
    by (simp add: get_ws_dashed)
qed

subsection \<open>\<open>write\<close>, then \<open>get\<close>\<close>

lemma write_note_Inr_D:
  assumes "write_note C S st key note = (Inr k, st')"
  shows "\<exists>a b. key = note_id note \<and> k = key \<and>
           ms_write (metadataStore S) (snd st) key (omit_body note) = (Inr a, snd st') \<and>
           fs_write (fileStore S) (fst st) (getFullPath C (omit_body note) (wsRoot S)) (serialize C note True)
             = (Inr b, fst st')"
proof -
  obtain r st1 where m: "writeMetadata S st key note = (r, st1)"
    by (cases "writeMetadata S st key note")
  with assms obtain k1 where r: "r = Inr k1"
    by (cases r) (simp_all add: write_note_def)
  from m r have m': "writeMetadata S st key note = (Inr k1, st1)"
    by simp
  then have w: "key = note_id note" "fst st1 = fst st"
    and "\<exists>a. ms_write (metadataStore S) (snd st) key (omit_body note) = (Inr a, snd st1)"
    unfolding writeMetadata_Inr_iff by blast+
  then obtain a where a: "ms_write (metadataStore S) (snd st) key (omit_body note) = (Inr a, snd st1)"
    by blast
  from assms m r w(2) have "k = key \<and> snd st' = snd st1 \<and>
      (\<exists>b. fs_write (fileStore S) (fst st) (getFullPath C (omit_body note) (wsRoot S)) (serialize C note True)
             = (Inr b, fst st'))"
    by (cases st') (auto simp add: write_note_def Let_def split: prod.splits sum.splits)
  with a w(1) show ?thesis by auto
qed

text \<open>
  With stores that keep what they write, and a serializer whose content is a
  header span without a delimiter inside the header, followed by a line
  break and the body, the note written is the note read, with a fresh hash.
\<close>

lemma write_then_get_plain_header:
  assumes "fs_write_stores (fileStore S)" and "ms_write_stores (metadataStore S)"
    and "write_note C S st key note = (Inr k, st')"
    and "header_span (serialize C note True) hdr (CHR ''\<newline>'' # body note)"
    and "\<not> sublist ''---'' hdr"
  shows "get C S st' key = Inr (note\<lparr>contentHash := Some (genHash C (serialize C note True))\<rparr>)"
proof -
  from write_note_Inr_D [OF assms(3)] obtain a b where
    m: "ms_write (metadataStore S) (snd st) key (omit_body note) = (Inr a, snd st')"
    and f: "fs_write (fileStore S) (fst st) (getFullPath C (omit_body note) (wsRoot S)) (serialize C note True)
             = (Inr b, fst st')"
    by blast
  from assms(2) m have gm: "getMetadata S st' key = Inr (omit_body note)"
    unfolding ms_write_stores_def getMetadata_eq by blast
  from assms(1) f have gf: "getNonMetadata S st' (getFullPath C (omit_body note) (wsRoot S))
      = Inr (serialize C note True)"
    unfolding fs_write_stores_def getNonMetadata_def by blast
  from get_plain_header_span [OF gm gf assms(4,5)]
  show ?thesis
    by (simp add: omit_body_def NotePropsMeta.defs NoteProps.defs)
qed

text \<open>The concrete scenario of the specification.\<close>

lemma write_then_get_a1:
  "write_note mem_common mem_store (empty_mem, empty_mem) ''a1'' note_a1 = (Inr ''a1'', ws_one) \<and>
   get mem_common mem_store ws_one ''a1'' =
     Inr (note_a1\<lparr>contentHash := Some ''---\<newline>id: a1\<newline>title: foo\<newline>---\<newline>hello''\<rparr>)"
  by (simp add: write_note_def writeMetadata_def get_def getMetadata_def getNonMetadata_def
      match_frontmatter_def mem_eval)

text \<open>
  C3. The note \<open>note_dashed\<close>, with the body \<open>hello\<close>, is written with success
  under its identifier into the empty stores. Its serialized header lists
  the title, which contains the delimiter, and the note that \<open>get\<close> then
  returns has another body.
\<close>

theorem write_then_get_dashed_title:
  "write_note mem_common mem_store (empty_mem, empty_mem) ''d1'' note_dashed = (Inr ''d1'', ws_dashed) \<and>
   body note_dashed = ''hello'' \<and>
   get mem_common mem_store ws_dashed ''d1'' =
     Inr (note_dashed\<lparr>contentHash := Some raw_dashed, body := ''\<newline>---\<newline>hello''\<rparr>) \<and>
   body (projr (get mem_common mem_store ws_dashed ''d1'')) \<noteq> body note_dashed"
proof -
  have "write_note mem_common mem_store (empty_mem, empty_mem) ''d1'' note_dashed = (Inr ''d1'', ws_dashed)"
    by (simp add: write_note_def writeMetadata_def mem_eval)
  moreover have "body note_dashed = ''hello''"
    by (simp add: note_dashed_def)
  moreover have "body (projr (get mem_common mem_store ws_dashed ''d1'')) \<noteq> body note_dashed"
    by (simp add: get_ws_dashed note_dashed_def)
  ultimately show ?thesis
    by (simp add: get_ws_dashed)
qed

end
